theory Spec2Isabelle
  imports Main
begin

section \<open>The abstract Toolchain class of easybuild/tools/toolchain/toolchain.py\<close>

text \<open>
  A shallow embedding of the methods of class \<open>Toolchain\<close>. Every method takes the
  toolchain instance (\<open>self\<close>) and the record of outside effects performed so far, and
  returns its result together with both, updated. A raised exception is the \<open>Inl\<close>
  branch of the result; the instance and the effects are returned in that case too,
  because a Python exception does not undo assignments made before it.
\<close>

subsection \<open>Python values held by the dictionaries\<close>

datatype pyval = PNone | PBool bool | PStr string

text \<open>Truth value of an object, as \<open>if x:\<close> and \<open>not x\<close> read it.\<close>

fun truthy :: "pyval \<Rightarrow> bool" where
  "truthy PNone = False"
| "truthy (PBool b) = b"
| "truthy (PStr s) = (s \<noteq> [])"

text \<open>A dependency descriptor is a dict with string keys.\<close>

type_synonym dependency = "string \<rightharpoonup> pyval"

datatype error =
    IdentityMissing string
  | ToolchainNotFound string string
  | DependencyNotFoundError pyval pyval
  | LegacyUsageError string
  | MissingRootError pyval
  | KeyError string
  | TypeError
  | AttributeError

text \<open>
  \<open>"".join(items)\<close>: the concatenation of the items, a TypeError when one of them is
  not a string.
\<close>

fun str_join :: "pyval list \<Rightarrow> error + string" where
  "str_join [] = Inr []"
| "str_join (PStr s # xs) = (case str_join xs of Inl e \<Rightarrow> Inl e | Inr r \<Rightarrow> Inr (s @ r))"
| "str_join (_ # xs) = Inl TypeError"

text \<open>\<open>d[k]\<close>: the value stored under the key, a KeyError when the key is absent.\<close>

definition getitem :: "dependency \<Rightarrow> string \<Rightarrow> error + pyval" where
  "getitem d k = (case d k of None \<Rightarrow> Inl (KeyError k) | Some v \<Rightarrow> Inr v)"

subsection \<open>Outside collaborators\<close>

text \<open>
  The module backend (\<open>easybuild.tools.modules\<close>), the variable container
  (\<open>ToolchainVariables\<close>), the option container and \<open>setvar\<close> are imported by the file
  and are not part of it. Their answers are parameters of the model (record \<open>extern\<close>);
  the calls made on them are recorded, in order, in record \<open>world\<close>.
  An entry of the list returned by \<open>available\<close> is a pair (name, version).
\<close>

datatype module_spec = ModTuple string string | ModDep dependency

datatype backend_call =
    Exists pyval pyval
  | Available pyval string
  | AddModule "module_spec list"
  | Load
  | DependenciesFor string string nat

text \<open>
  A call that changes the variable container. The container's state is the list of
  these calls made on it since \<open>VARIABLES_CLASS()\<close> created it.
\<close>

datatype variables_call =
    AppendSubdirs string string "string list"
  | TryFunctionOnElement string

text \<open>
  Modelled from the spec: the logger (\<open>vsc.fancylogger\<close>) is not in the file. Its methods
  \<open>info\<close> and \<open>error\<close> write a record and return; its method \<open>raiseException\<close> raises.
  The records written at levels info and error are kept (debug records are left out).
\<close>

datatype log_record =
    InfoDummyNotLoading
  | InfoDummyLoading
  | InfoMatch
  | ErrorMismatch "pyval set" "pyval set"

record extern =
  mod_exists :: "pyval \<Rightarrow> pyval \<Rightarrow> bool"
  mod_available :: "pyval \<Rightarrow> string \<Rightarrow> (string \<times> string) list"
  mod_dependencies_for :: "string \<Rightarrow> string \<Rightarrow> nat \<Rightarrow> dependency list"
  software_root :: "pyval \<Rightarrow> string option"
  variables_items :: "variables_call list \<Rightarrow> (string \<times> string) list"

record world =
  backend_calls :: "backend_call list"
  log_records :: "log_record list"
  setvar_calls :: "(string \<times> string) list"

definition call_backend :: "backend_call \<Rightarrow> world \<Rightarrow> world" where
  "call_backend c w = w\<lparr>backend_calls := backend_calls w @ [c]\<rparr>"

definition write_log :: "log_record \<Rightarrow> world \<Rightarrow> world" where
  "write_log r w = w\<lparr>log_records := log_records w @ [r]\<rparr>"

text \<open>
  Modelled from the spec: \<open>setvar(key, value)\<close> of \<open>easybuild.tools.environment\<close> sets the
  variable \<open>key\<close> of the process environment to \<open>value\<close>. The calls are kept in order.
\<close>

definition setvar :: "string \<Rightarrow> string \<Rightarrow> world \<Rightarrow> world" where
  "setvar k v w = w\<lparr>setvar_calls := setvar_calls w @ [(k, v)]\<rparr>"

subsection \<open>The class and its instances\<close>

text \<open>
  What a concrete toolchain class declares: the defaults \<open>NAME\<close> and \<open>VERSION\<close>, the
  fresh option container, its list-valued attributes (among them the ones named
  \<open>..._MODULE_NAME\<close>) and its \<open>is_required\<close> policy.
\<close>

record toolchain_class =
  NAME :: "string option"
  VERSION :: "string option"
  OPTIONS_CLASS :: "string \<rightharpoonup> pyval"
  class_attrs :: "(string \<times> string list) list"
  is_required :: "string \<Rightarrow> bool"

record toolchain =
  name :: string
  version :: string
  options :: "string \<rightharpoonup> pyval"
  variables :: "variables_call list"
  dependencies :: "dependency list"
  toolchain_dependencies :: "dependency list"
  vars :: "(string \<times> string) list option"

definition DUMMY_NAME :: string where
  "DUMMY_NAME = ''dummy''"

definition DUMMY_VERSION :: string where
  "DUMMY_VERSION = ''dummy''"

text \<open>\<open>__init__\<close> with \<open>base_init\<close>: the instance of a class for a name and a version.\<close>

definition Toolchain_init ::
  "toolchain_class \<Rightarrow> string option \<Rightarrow> string option \<Rightarrow> error + toolchain" where
  "Toolchain_init cls nm ver =
     (case (case nm of None \<Rightarrow> NAME cls | Some n \<Rightarrow> Some n) of
        None \<Rightarrow> Inl (IdentityMissing ''init: no name provided'')
      | Some n \<Rightarrow>
         (case (case ver of None \<Rightarrow> VERSION cls | Some v \<Rightarrow> Some v) of
            None \<Rightarrow> Inl (IdentityMissing ''init: no version provided'')
          | Some v \<Rightarrow>
              Inr \<lparr>name = n, version = v, options = OPTIONS_CLASS cls, variables = [],
                   dependencies = [], toolchain_dependencies = [], vars = None\<rparr>))"

subsection \<open>get_dependency_version\<close>

text \<open>The toolchain part of a dependency's version string (lines 220 to 229).\<close>

definition toolchain_suffix_of :: "toolchain \<Rightarrow> dependency \<Rightarrow> string" where
  "toolchain_suffix_of t dep =
     (let tcs = (if name t \<noteq> DUMMY_NAME then ''-'' @ name t @ ''-'' @ version t
                 else if version t \<noteq> DUMMY_VERSION then version t
                 else [])
      in case dep DUMMY_NAME of
           None \<Rightarrow> tcs
         | Some flag \<Rightarrow> if truthy flag then [] else tcs)"

text \<open>
  The result is a Python value: the branch that finds matches ends in a bare
  \<open>return\<close>, whose value is \<open>None\<close>.
\<close>

definition get_dependency_version ::
  "extern \<Rightarrow> toolchain \<Rightarrow> dependency \<Rightarrow> world \<Rightarrow> (error + pyval) \<times> world" where
  "get_dependency_version b t dep w =
     (let tcs = toolchain_suffix_of t dep;
          suffix = (case dep ''suffix'' of None \<Rightarrow> PStr [] | Some s \<Rightarrow> s)
      in case dep ''version'' of
           Some v \<Rightarrow>
             (case str_join [v, PStr tcs, suffix] of
                Inl e \<Rightarrow> (Inl e, w)
              | Inr s \<Rightarrow> (Inr (PStr s), w))
         | None \<Rightarrow>
             (case str_join [PStr tcs, suffix] of
                Inl e \<Rightarrow> (Inl e, w)
              | Inr toolchain_suffix \<Rightarrow>
                 (case getitem dep ''name'' of
                    Inl e \<Rightarrow> (Inl e, w)
                  | Inr n \<Rightarrow>
                     (let matches = mod_available b n toolchain_suffix;
                          w' = call_backend (Available n toolchain_suffix) w
                      in if length matches > 0 then (Inr PNone, w')
                         else (Inl (DependencyNotFoundError n (PStr toolchain_suffix)), w')))))"

subsection \<open>add_dependencies\<close>

text \<open>
  The body of the loop for one dependency. The dict that is appended is the one given,
  with the key \<open>tc\<close> assigned when it was absent.
\<close>

definition add_dependency ::
  "extern \<Rightarrow> toolchain \<Rightarrow> dependency \<Rightarrow> world \<Rightarrow> (error + unit) \<times> toolchain \<times> world" where
  "add_dependency b t dep w =
     (if dep ''tk'' \<noteq> None
      then (Inl (LegacyUsageError ''add_dependencies: legacy tk found in dep''), t, w)
      else
        (case (if dep ''tc'' = None
               then (case get_dependency_version b t dep w of
                       (Inl e, w1) \<Rightarrow> (Inl e, w1)
                     | (Inr v, w1) \<Rightarrow> (Inr (dep(''tc'' \<mapsto> v)), w1))
               else (Inr dep, w)) of
           (Inl e, w1) \<Rightarrow> (Inl e, t, w1)
         | (Inr dep1, w1) \<Rightarrow>
            (case getitem dep1 ''name'' of
               Inl e \<Rightarrow> (Inl e, t, w1)
             | Inr n \<Rightarrow>
                (case getitem dep1 ''tc'' of
                   Inl e \<Rightarrow> (Inl e, t, w1)
                 | Inr v \<Rightarrow>
                    (let w2 = call_backend (Exists n v) w1
                     in if \<not> mod_exists b n v
                        then (Inl (DependencyNotFoundError n v), t, w2)
                        else (Inr (), t\<lparr>dependencies := dependencies t @ [dep1]\<rparr>, w2))))))"

fun add_dependencies ::
  "extern \<Rightarrow> toolchain \<Rightarrow> dependency list \<Rightarrow> world \<Rightarrow> (error + unit) \<times> toolchain \<times> world" where
  "add_dependencies b t [] w = (Inr (), t, w)"
| "add_dependencies b t (dep # deps) w =
     (case add_dependency b t dep w of
        (Inl e, t1, w1) \<Rightarrow> (Inl e, t1, w1)
      | (Inr u, t1, w1) \<Rightarrow> add_dependencies b t1 deps w1)"

subsection \<open>Variables\<close>

text \<open>
  Modelled from the spec: \<open>options.option(name)\<close> of the option container, which is not
  in the file, is the value stored for the option; the option is set when the value is
  true.
\<close>

definition option_of :: "toolchain \<Rightarrow> string \<Rightarrow> pyval" where
  "option_of t k = (case options t k of None \<Rightarrow> PNone | Some v \<Rightarrow> v)"

definition set_variables :: "toolchain \<Rightarrow> toolchain" where
  "set_variables t =
     (if truthy (option_of t ''packed-linker-options'')
      then t\<lparr>variables := variables t @ [TryFunctionOnElement ''set_packed_linker_options'']\<rparr>
      else t)"

definition generate_vars :: "extern \<Rightarrow> toolchain \<Rightarrow> toolchain" where
  "generate_vars b t = t\<lparr>vars := Some (variables_items b (variables t))\<rparr>"

text \<open>\<open>_get_software_root\<close>, for one name.\<close>

definition get_software_root_one :: "extern \<Rightarrow> pyval \<Rightarrow> error + string" where
  "get_software_root_one b n =
     (case software_root b n of None \<Rightarrow> Inl (MissingRootError n) | Some root \<Rightarrow> Inr root)"

text \<open>\<open>_get_software_multiple\<close>, for a list of names: it stops at the first failure.\<close>

fun get_software_multiple :: "pyval list \<Rightarrow> (pyval \<Rightarrow> error + string) \<Rightarrow> error + string list" where
  "get_software_multiple [] f = Inr []"
| "get_software_multiple (n # ns) f =
     (case f n of
        Inl e \<Rightarrow> Inl e
      | Inr r \<Rightarrow> (case get_software_multiple ns f of Inl e \<Rightarrow> Inl e | Inr rs \<Rightarrow> Inr (r # rs)))"

definition get_software_root :: "extern \<Rightarrow> pyval list \<Rightarrow> error + string list" where
  "get_software_root b names = get_software_multiple names (get_software_root_one b)"

text \<open>\<open>for p in ps: if not p in paths: paths.append(p)\<close>\<close>

fun append_new :: "string list \<Rightarrow> string list \<Rightarrow> string list" where
  "append_new paths [] = paths"
| "append_new paths (p # ps) = append_new (if p \<in> set paths then paths else paths @ [p]) ps"

definition cpp_paths_of :: "string list option \<Rightarrow> string list" where
  "cpp_paths_of cpp = (case cpp of None \<Rightarrow> [''include''] | Some ps \<Rightarrow> append_new [''include''] ps)"

definition ld_paths_of :: "toolchain \<Rightarrow> string list option \<Rightarrow> string list" where
  "ld_paths_of t ld =
     (let ld_paths = (if \<not> truthy (option_of t ''32bit'') then ''lib64'' # [''lib''] else [''lib''])
      in case ld of None \<Rightarrow> ld_paths | Some ps \<Rightarrow> append_new ld_paths ps)"

text \<open>\<open>[dep['name'] for dep in deps]\<close>\<close>

fun dep_names :: "dependency list \<Rightarrow> error + pyval list" where
  "dep_names [] = Inr []"
| "dep_names (d # ds) =
     (case getitem d ''name'' of
        Inl e \<Rightarrow> Inl e
      | Inr n \<Rightarrow> (case dep_names ds of Inl e \<Rightarrow> Inl e | Inr ns \<Rightarrow> Inr (n # ns)))"

definition append_root :: "string list \<Rightarrow> string list \<Rightarrow> string \<Rightarrow> variables_call list" where
  "append_root cpp_paths ld_paths root =
     [AppendSubdirs ''CPPFLAGS'' root cpp_paths, AppendSubdirs ''LDFLAGS'' root ld_paths]"

definition add_dependency_variables ::
  "extern \<Rightarrow> pyval list option \<Rightarrow> string list option \<Rightarrow> string list option \<Rightarrow> toolchain
     \<Rightarrow> error + toolchain" where
  "add_dependency_variables b names cpp ld t =
     (let cpp_paths = cpp_paths_of cpp;
          ld_paths = ld_paths_of t ld;
          deps = (case names of
                    None \<Rightarrow> dependencies t
                  | Some ns \<Rightarrow>
                      if ns = [] then dependencies t
                      else map (\<lambda>n. [''name'' \<mapsto> n]) (filter (\<lambda>n. n \<noteq> PNone) ns))
      in case dep_names deps of
           Inl e \<Rightarrow> Inl e
         | Inr ns \<Rightarrow>
            (case get_software_root b ns of
               Inl e \<Rightarrow> Inl e
             | Inr roots \<Rightarrow>
                 Inr (t\<lparr>variables :=
                          variables t @ concat (map (append_root cpp_paths ld_paths) roots)\<rparr>)))"

subsection \<open>Setting the environment\<close>

text \<open>The argument \<open>onlymod\<close> of \<open>prepare\<close>, handed on as \<open>donotset\<close>.\<close>

datatype onlymod_arg = OnlyNone | OnlyBool bool | OnlyStr string | OnlyList "string list"

fun setenv_loop :: "string list \<Rightarrow> (string \<times> string) list \<Rightarrow> world \<Rightarrow> world" where
  "setenv_loop donotsetlist [] w = w"
| "setenv_loop donotsetlist ((key, val) # kvs) w =
     (if key \<in> set donotsetlist then setenv_loop donotsetlist kvs w
      else setenv_loop donotsetlist kvs (setvar (''EBVAR'' @ key) val (setvar key val w)))"

text \<open>
  The list of names that are not set. A string is refused: \<open>raiseException\<close> raises
  before the string would be split.
\<close>

definition donotsetlist_of :: "onlymod_arg \<Rightarrow> error + string list" where
  "donotsetlist_of donotset =
     (case donotset of
        OnlyStr s \<Rightarrow>
          Inl (LegacyUsageError
                 ''_setenv_variables: using commas-separated list. should be deprecated.'')
      | OnlyList l \<Rightarrow> Inr l
      | _ \<Rightarrow> Inr [])"

definition setenv_variables ::
  "onlymod_arg \<Rightarrow> toolchain \<Rightarrow> world \<Rightarrow> (error + unit) \<times> world" where
  "setenv_variables donotset t w =
     (case donotsetlist_of donotset of
        Inl e \<Rightarrow> (Inl e, w)
      | Inr donotsetlist \<Rightarrow>
          (case vars t of
             None \<Rightarrow> (Inl AttributeError, w)
           | Some kvs \<Rightarrow> (Inr (), setenv_loop donotsetlist kvs w)))"

subsection \<open>prepare\<close>

definition toolchain_exists ::
  "extern \<Rightarrow> toolchain \<Rightarrow> string option \<Rightarrow> string option \<Rightarrow> world \<Rightarrow> bool \<times> world" where
  "toolchain_exists b t nm ver w =
     (let n = (case nm of None \<Rightarrow> name t | Some x \<Rightarrow> if x = [] then name t else x);
          v = (case ver of None \<Rightarrow> version t | Some x \<Rightarrow> if x = [] then version t else x)
      in if name t = DUMMY_NAME then (True, w)
         else (mod_exists b (PStr n) (PStr v), call_backend (Exists (PStr n) (PStr v)) w))"

definition endswith :: "string \<Rightarrow> string \<Rightarrow> bool" where
  "endswith s suf = (length suf \<le> length s \<and> drop (length s - length suf) s = suf)"

text \<open>
  The values of the attributes named \<open>..._MODULE_NAME\<close>, without the toolchain's own
  name and without the optional elements that the loaded module does not use.
\<close>

definition toolchain_elements_mod_names ::
  "toolchain_class \<Rightarrow> toolchain \<Rightarrow> pyval set \<Rightarrow> string list" where
  "toolchain_elements_mod_names cls t toolchain_module_deps =
     filter (\<lambda>m. is_required cls m \<or> PStr m \<in> toolchain_module_deps)
       (filter (\<lambda>x. x \<noteq> name t)
          (concat (map snd (filter (\<lambda>(x, ys). endswith x ''_MODULE_NAME'') (class_attrs cls)))))"

text \<open>Lines 328 to 342: the steps after the consistency check.\<close>

definition prepare_variables ::
  "extern \<Rightarrow> onlymod_arg \<Rightarrow> toolchain \<Rightarrow> world \<Rightarrow> (error + unit) \<times> toolchain \<times> world" where
  "prepare_variables b onlymod t w =
     (let t1 = set_variables t
      in if onlymod = OnlyBool True then (Inr (), generate_vars b t1, w)
         else
           (case add_dependency_variables b None None None t1 of
              Inl e \<Rightarrow> (Inl e, t1, w)
            | Inr t2 \<Rightarrow>
               (let t3 = generate_vars b t2
                in case setenv_variables onlymod t3 w of
                     (r, w1) \<Rightarrow> (r, t3, w1))))"

definition prepare ::
  "toolchain_class \<Rightarrow> extern \<Rightarrow> onlymod_arg \<Rightarrow> toolchain \<Rightarrow> world
     \<Rightarrow> (error + unit) \<times> toolchain \<times> world" where
  "prepare cls b onlymod t w =
     (case toolchain_exists b t None None w of
        (ex, w1) \<Rightarrow>
          if \<not> ex then (Inl (ToolchainNotFound (name t) (version t)), t, w1)
          else if name t = DUMMY_NAME then
            (if version t = DUMMY_VERSION then (Inr (), t, write_log InfoDummyNotLoading w1)
             else
               (Inr (), t,
                call_backend Load
                  (call_backend (AddModule (map ModDep (dependencies t)))
                     (write_log InfoDummyLoading w1))))
          else
            (let w2 = call_backend Load
                        (call_backend (AddModule (map ModDep (dependencies t)))
                           (call_backend (AddModule [ModTuple (name t) (version t)]) w1));
                 t1 = t\<lparr>toolchain_dependencies := mod_dependencies_for b (name t) (version t) 0\<rparr>;
                 w3 = call_backend (DependenciesFor (name t) (version t) 0) w2
             in case dep_names (toolchain_dependencies t1) of
                  Inl e \<Rightarrow> (Inl e, t1, w3)
                | Inr ns \<Rightarrow>
                   (let toolchain_module_deps = set ns;
                        elements = PStr ` set (toolchain_elements_mod_names cls t1 toolchain_module_deps);
                        w4 = (if toolchain_module_deps = elements then write_log InfoMatch w3
                              else write_log (ErrorMismatch toolchain_module_deps elements) w3)
                    in prepare_variables b onlymod t1 w4)))"

subsection \<open>A concrete installation\<close>

text \<open>
  The scenario of the specification: the toolchain \<open>GCC\<close> in version \<open>4.7\<close> and the
  module \<open>OpenMPI/1.6-GCC-4.7\<close>, installed under \<open>/opt/OpenMPI\<close>. The toolchain class
  declares the compiler module \<open>GCC\<close> and the MPI module \<open>OpenMPI\<close>; the loaded toolchain
  module reports no dependency of its own. The variable container renders, for every
  \<open>append_subdirs\<close> call, the paths of the subdirectories under the root.
\<close>

definition world0 :: world where
  "world0 = \<lparr>backend_calls = [], log_records = [], setvar_calls = []\<rparr>"

definition Toolchain_class :: toolchain_class where
  "Toolchain_class =
     \<lparr>NAME = None, VERSION = None, OPTIONS_CLASS = Map.empty, class_attrs = [],
      is_required = (\<lambda>m. True)\<rparr>"

definition GCC_class :: toolchain_class where
  "GCC_class =
     \<lparr>NAME = Some ''GCC'', VERSION = None, OPTIONS_CLASS = Map.empty,
      class_attrs = [(''COMPILER_MODULE_NAME'', [''GCC'']), (''MPI_MODULE_NAME'', [''OpenMPI''])],
      is_required = (\<lambda>m. True)\<rparr>"

definition GCC_4_7 :: toolchain where
  "GCC_4_7 =
     \<lparr>name = ''GCC'', version = ''4.7'', options = Map.empty, variables = [],
      dependencies = [], toolchain_dependencies = [], vars = None\<rparr>"

definition OpenMPI_1_6 :: dependency where
  "OpenMPI_1_6 = [''name'' \<mapsto> PStr ''OpenMPI'', ''version'' \<mapsto> PStr ''1.6'']"

fun render_call :: "variables_call \<Rightarrow> (string \<times> string) list" where
  "render_call (AppendSubdirs k root subdirs) = map (\<lambda>d. (k, root @ ''/'' @ d)) subdirs"
| "render_call (TryFunctionOnElement f) = []"

fun join_values :: "string \<Rightarrow> (string \<times> string) list \<Rightarrow> string" where
  "join_values k [] = []"
| "join_values k ((k', v) # kvs) =
     (if k' = k then (if join_values k kvs = [] then v else v @ '' '' @ join_values k kvs)
      else join_values k kvs)"

definition render_items :: "variables_call list \<Rightarrow> (string \<times> string) list" where
  "render_items calls =
     (let kvs = concat (map render_call calls)
      in map (\<lambda>k. (k, join_values k kvs)) (remdups (map fst kvs)))"

definition installation :: extern where
  "installation =
     \<lparr>mod_exists = (\<lambda>n v. (n = PStr ''GCC'' \<and> v = PStr ''4.7'')
                          \<or> (n = PStr ''OpenMPI'' \<and> v = PStr ''1.6-GCC-4.7'')),
      mod_available = (\<lambda>n s. if n = PStr ''OpenMPI'' \<and> s = ''-GCC-4.7''
                              then [(''OpenMPI'', ''1.6-GCC-4.7'')] else []),
      mod_dependencies_for = (\<lambda>n v depth. []),
      software_root = (\<lambda>n. if n = PStr ''OpenMPI'' then Some ''/opt/OpenMPI'' else None),
      variables_items = render_items\<rparr>"


text \<open>The same installation with no module at all.\<close>

definition no_modules :: extern where
  "no_modules =
     \<lparr>mod_exists = (\<lambda>n v. False), mod_available = (\<lambda>n s. []),
      mod_dependencies_for = (\<lambda>n v depth. []), software_root = (\<lambda>n. None),
      variables_items = render_items\<rparr>"

section \<open>Properties\<close>

subsection \<open>Resolution of a dependency's version\<close>

lemma str_join_error: "str_join xs = Inl e \<Longrightarrow> e = TypeError"
  by (induction xs rule: str_join.induct) (auto split: sum.splits)

lemma get_dependency_version_explicit:
  "dep ''version'' = Some v \<Longrightarrow>
   get_dependency_version b t dep w =
     (case str_join [v, PStr (toolchain_suffix_of t dep),
                     (case dep ''suffix'' of None \<Rightarrow> PStr [] | Some s \<Rightarrow> s)] of
        Inl e \<Rightarrow> (Inl e, w)
      | Inr s \<Rightarrow> (Inr (PStr s), w))"
  by (simp add: get_dependency_version_def Let_def del: str_join.simps)

text \<open>
  C1. A dependency without a version: the backend is asked for the available modules of
  that name with the suffix of the toolchain; no match is a DependencyNotFoundError, and
  the last entry of a non-empty match list is the result. The code computes that entry
  (\<open>version = matches[-1][-1]\<close>) and then executes a bare \<open>return\<close>: at the installation
  above, where \<open>OpenMPI/1.6-GCC-4.7\<close> is the only match, the result is \<open>None\<close>.
\<close>

theorem get_dependency_version_match_returns_None:
  "mod_available installation (PStr ''OpenMPI'') ''-GCC-4.7'' = [(''OpenMPI'', ''1.6-GCC-4.7'')]
   \<and> get_dependency_version installation GCC_4_7 [''name'' \<mapsto> PStr ''OpenMPI''] world0
       = (Inr PNone, call_backend (Available (PStr ''OpenMPI'') ''-GCC-4.7'') world0)"
  by (simp add: get_dependency_version_def toolchain_suffix_of_def DUMMY_NAME_def getitem_def
        installation_def GCC_4_7_def)

text \<open>
  C4. For a toolchain named \<open>GCC\<close> in version \<open>4.7\<close>, the dependency
  \<open>{name: OpenMPI, version: 1.6}\<close> resolves to \<open>1.6-GCC-4.7\<close>, whatever the backend and
  the rest of the toolchain are.
\<close>

theorem get_dependency_version_OpenMPI_GCC:
  "get_dependency_version b (t\<lparr>name := ''GCC'', version := ''4.7''\<rparr>)
     [''name'' \<mapsto> PStr ''OpenMPI'', ''version'' \<mapsto> PStr ''1.6''] w
   = (Inr (PStr ''1.6-GCC-4.7''), w)"
  by (simp add: get_dependency_version_def toolchain_suffix_of_def DUMMY_NAME_def)

text \<open>
  C8. For a dependency with an explicit version, the result depends on the dependency
  and on the name and the version of the toolchain only: two toolchains that agree on
  both give the same result for any two backends and any two histories of effects, and
  no call is added to the history. The result is an identifier string, or a TypeError
  when the version or the suffix of the dependency is not a string.
\<close>

theorem get_dependency_version_explicit_pure:
  assumes "dep ''version'' \<noteq> None" and "name t1 = name t2" and "version t1 = version t2"
  shows "fst (get_dependency_version b1 t1 dep w1) = fst (get_dependency_version b2 t2 dep w2)
       \<and> snd (get_dependency_version b1 t1 dep w1) = w1
       \<and> (fst (get_dependency_version b1 t1 dep w1) = Inl TypeError
            \<or> (\<exists>s. fst (get_dependency_version b1 t1 dep w1) = Inr (PStr s)))"
proof -
  from assms(1) obtain v where v: "dep ''version'' = Some v" by auto
  note eq = get_dependency_version_explicit[where dep=dep and v=v, OF v]
  have s: "toolchain_suffix_of t1 dep = toolchain_suffix_of t2 dep"
    using assms(2,3) by (simp add: toolchain_suffix_of_def)
  show ?thesis
  proof (cases "str_join [v, PStr (toolchain_suffix_of t2 dep),
                     (case dep ''suffix'' of None \<Rightarrow> PStr [] | Some s \<Rightarrow> s)]")
    case (Inl e)
    then have "e = TypeError" by (rule str_join_error)
    with Inl show ?thesis by (simp add: eq s del: str_join.simps)
  next
    case (Inr r)
    then show ?thesis by (simp add: eq s del: str_join.simps)
  qed
qed

theorem get_dependency_version_explicit_pure_witness:
  "OpenMPI_1_6 ''version'' \<noteq> None
   \<and> fst (get_dependency_version installation GCC_4_7 OpenMPI_1_6 world0) = Inr (PStr ''1.6-GCC-4.7'')
   \<and> fst (get_dependency_version no_modules (GCC_4_7\<lparr>options := [''32bit'' \<mapsto> PBool True]\<rparr>)
            OpenMPI_1_6 (call_backend Load world0)) = Inr (PStr ''1.6-GCC-4.7'')
   \<and> snd (get_dependency_version installation GCC_4_7 OpenMPI_1_6 world0) = world0"
proof -
  have h: "OpenMPI_1_6 ''version'' \<noteq> None" by (simp add: OpenMPI_1_6_def)
  have n: "name GCC_4_7 = name (GCC_4_7\<lparr>options := [''32bit'' \<mapsto> PBool True]\<rparr>)" by simp
  have v: "version GCC_4_7 = version (GCC_4_7\<lparr>options := [''32bit'' \<mapsto> PBool True]\<rparr>)" by simp
  have e: "fst (get_dependency_version installation GCC_4_7 OpenMPI_1_6 world0)
             = Inr (PStr ''1.6-GCC-4.7'')"
    by (simp add: get_dependency_version_def toolchain_suffix_of_def DUMMY_NAME_def
          GCC_4_7_def OpenMPI_1_6_def)
  note get_dependency_version_explicit_pure[where dep=OpenMPI_1_6 and ?t1.0=GCC_4_7
            and ?t2.0="GCC_4_7\<lparr>options := [''32bit'' \<mapsto> PBool True]\<rparr>"
            and ?b1.0=installation and ?w1.0=world0 and ?b2.0=no_modules
            and ?w2.0="call_backend Load world0", OF h n v]
  with e h show ?thesis by metis
qed

subsection \<open>Registration of dependencies\<close>

lemma add_dependency_Inl:
  "add_dependency b t d w = (Inl e, t1, w1) \<Longrightarrow> t1 = t"
  by (auto simp: add_dependency_def Let_def split: if_splits sum.splits prod.splits)

lemma add_dependency_Inr:
  assumes "add_dependency b t d w = (Inr u, t1, w1)"
  shows "\<exists>d'. t1 = t\<lparr>dependencies := dependencies t @ [d']\<rparr>
            \<and> (d' = d \<or> (d ''tc'' = None \<and> (\<exists>v. d' = d(''tc'' \<mapsto> v))))
            \<and> (\<exists>n v. d' ''name'' = Some n \<and> d' ''tc'' = Some v \<and> mod_exists b n v)"
  using assms
  apply (simp add: add_dependency_def Let_def getitem_def split: if_splits sum.splits prod.splits option.splits)
   apply auto
  done

lemma add_dependencies_appends:
  "add_dependencies b t deps w = (Inr u, t1, w1) \<Longrightarrow>
     \<exists>added. t1 = t\<lparr>dependencies := dependencies t @ added\<rparr>
        \<and> list_all2 (\<lambda>d d'. (d' = d \<or> (d ''tc'' = None \<and> (\<exists>v. d' = d(''tc'' \<mapsto> v))))
              \<and> (\<exists>n v. d' ''name'' = Some n \<and> d' ''tc'' = Some v \<and> mod_exists b n v)) deps added"
proof (induction deps arbitrary: t w)
  case Nil
  then show ?case by simp
next
  case (Cons d deps)
  from Cons.prems obtain t2 w2 u2 where
    step: "add_dependency b t d w = (Inr u2, t2, w2)" and
    rest: "add_dependencies b t2 deps w2 = (Inr u, t1, w1)"
    by (auto split: prod.splits sum.splits)
  from add_dependency_Inr[OF step] obtain d' where
    t2: "t2 = t\<lparr>dependencies := dependencies t @ [d']\<rparr>" and
    r1: "d' = d \<or> (d ''tc'' = None \<and> (\<exists>v. d' = d(''tc'' \<mapsto> v)))" and
    r2: "\<exists>n v. d' ''name'' = Some n \<and> d' ''tc'' = Some v \<and> mod_exists b n v"
    by blast
  from Cons.IH[OF rest] obtain added where
    t1: "t1 = t2\<lparr>dependencies := dependencies t2 @ added\<rparr>" and
    r: "list_all2 (\<lambda>d d'. (d' = d \<or> (d ''tc'' = None \<and> (\<exists>v. d' = d(''tc'' \<mapsto> v))))
              \<and> (\<exists>n v. d' ''name'' = Some n \<and> d' ''tc'' = Some v \<and> mod_exists b n v)) deps added"
    by blast
  have "t1 = t\<lparr>dependencies := dependencies t @ (d' # added)\<rparr>"
    using t1 t2 by simp
  moreover have "list_all2 (\<lambda>d d'. (d' = d \<or> (d ''tc'' = None \<and> (\<exists>v. d' = d(''tc'' \<mapsto> v))))
              \<and> (\<exists>n v. d' ''name'' = Some n \<and> d' ''tc'' = Some v \<and> mod_exists b n v)) (d # deps) (d' # added)"
    using r r1 r2 by simp
  ultimately show ?case by blast
qed

lemma add_dependencies_append:
  "add_dependencies b t (xs @ ys) w =
     (case add_dependencies b t xs w of
        (Inl e, t1, w1) \<Rightarrow> (Inl e, t1, w1)
      | (Inr u, t1, w1) \<Rightarrow> add_dependencies b t1 ys w1)"
  by (induction xs arbitrary: t w) (auto split: prod.splits sum.splits)

lemma add_dependency_tk:
  "d ''tk'' \<noteq> None \<Longrightarrow>
   add_dependency b t d w = (Inl (LegacyUsageError ''add_dependencies: legacy tk found in dep''), t, w)"
  by (simp add: add_dependency_def)

lemma add_OpenMPI:
  "add_dependencies installation GCC_4_7 [OpenMPI_1_6] world0 =
     (Inr (), GCC_4_7\<lparr>dependencies := [OpenMPI_1_6(''tc'' \<mapsto> PStr ''1.6-GCC-4.7'')]\<rparr>,
      call_backend (Exists (PStr ''OpenMPI'') (PStr ''1.6-GCC-4.7'')) world0)"
  by (simp add: add_dependency_def get_dependency_version_def toolchain_suffix_of_def
        getitem_def DUMMY_NAME_def GCC_4_7_def OpenMPI_1_6_def installation_def)


text \<open>
  C9. \<open>add_dependencies\<close> is not atomic. When the dependencies \<open>pre\<close> pass and the next
  one, \<open>d\<close>, fails (with any error: the legacy key \<open>tk\<close>, a module that does not exist, a
  failed resolution), the call on \<open>pre @ d # rest\<close> raises that error and leaves the
  toolchain as it was after \<open>pre\<close>: the entries for \<open>pre\<close> stay appended.
\<close>

theorem add_dependencies_not_atomic:
  assumes "add_dependencies b t pre w = (Inr (), t1, w1)"
      and "add_dependency b t1 d w1 = (Inl e, t2, w2)"
  shows "add_dependencies b t (pre @ d # rest) w = (Inl e, t1, w2)
       \<and> (\<exists>added. dependencies t1 = dependencies t @ added \<and> length added = length pre
            \<and> list_all2 (\<lambda>d d'. (d' = d \<or> (d ''tc'' = None \<and> (\<exists>v. d' = d(''tc'' \<mapsto> v))))
                 \<and> (\<exists>n v. d' ''name'' = Some n \<and> d' ''tc'' = Some v \<and> mod_exists b n v)) pre added)"
proof -
  have "t2 = t1" using assms(2) by (rule add_dependency_Inl)
  then have raised: "add_dependencies b t (pre @ d # rest) w = (Inl e, t1, w2)"
    using assms by (simp add: add_dependencies_append)
  from add_dependencies_appends[OF assms(1)] obtain added where
    t1: "t1 = t\<lparr>dependencies := dependencies t @ added\<rparr>" and
    rel: "list_all2 (\<lambda>d d'. (d' = d \<or> (d ''tc'' = None \<and> (\<exists>v. d' = d(''tc'' \<mapsto> v))))
                 \<and> (\<exists>n v. d' ''name'' = Some n \<and> d' ''tc'' = Some v \<and> mod_exists b n v)) pre added"
    by blast
  from rel have len: "length added = length pre" by (simp add: list_all2_lengthD)
  from t1 have "dependencies t1 = dependencies t @ added" by simp
  with raised len rel show ?thesis by blast
qed

theorem add_dependencies_not_atomic_witness:
  "add_dependencies installation GCC_4_7
      [OpenMPI_1_6, [''name'' \<mapsto> PStr ''FFTW'', ''tk'' \<mapsto> PStr ''goalf''],
       [''name'' \<mapsto> PStr ''HDF5'', ''version'' \<mapsto> PStr ''1.8.9'']] world0 =
     (Inl (LegacyUsageError ''add_dependencies: legacy tk found in dep''),
      GCC_4_7\<lparr>dependencies := [OpenMPI_1_6(''tc'' \<mapsto> PStr ''1.6-GCC-4.7'')]\<rparr>,
      call_backend (Exists (PStr ''OpenMPI'') (PStr ''1.6-GCC-4.7'')) world0)
   \<and> add_dependencies installation GCC_4_7
      [OpenMPI_1_6, [''name'' \<mapsto> PStr ''HDF5'', ''version'' \<mapsto> PStr ''1.8.9'']] world0 =
     (Inl (DependencyNotFoundError (PStr ''HDF5'') (PStr ''1.8.9-GCC-4.7'')),
      GCC_4_7\<lparr>dependencies := [OpenMPI_1_6(''tc'' \<mapsto> PStr ''1.6-GCC-4.7'')]\<rparr>,
      call_backend (Exists (PStr ''HDF5'') (PStr ''1.8.9-GCC-4.7''))
        (call_backend (Exists (PStr ''OpenMPI'') (PStr ''1.6-GCC-4.7'')) world0))
   \<and> dependencies GCC_4_7 = []"
proof -
  let ?t1 = "GCC_4_7\<lparr>dependencies := [OpenMPI_1_6(''tc'' \<mapsto> PStr ''1.6-GCC-4.7'')]\<rparr>"
  let ?w1 = "call_backend (Exists (PStr ''OpenMPI'') (PStr ''1.6-GCC-4.7'')) world0"
  have legacy: "add_dependency installation ?t1
               [''name'' \<mapsto> PStr ''FFTW'', ''tk'' \<mapsto> PStr ''goalf''] ?w1 =
             (Inl (LegacyUsageError ''add_dependencies: legacy tk found in dep''), ?t1, ?w1)"
    by (rule add_dependency_tk) simp
  have missing: "add_dependency installation ?t1
               [''name'' \<mapsto> PStr ''HDF5'', ''version'' \<mapsto> PStr ''1.8.9''] ?w1 =
             (Inl (DependencyNotFoundError (PStr ''HDF5'') (PStr ''1.8.9-GCC-4.7'')), ?t1,
              call_backend (Exists (PStr ''HDF5'') (PStr ''1.8.9-GCC-4.7'')) ?w1)"
    by (simp add: add_dependency_def get_dependency_version_def toolchain_suffix_of_def
          getitem_def DUMMY_NAME_def GCC_4_7_def installation_def)
  have "dependencies GCC_4_7 = []" by (simp add: GCC_4_7_def)
  with add_dependencies_not_atomic[OF add_OpenMPI legacy,
         of "[[''name'' \<mapsto> PStr ''HDF5'', ''version'' \<mapsto> PStr ''1.8.9'']]"]
       add_dependencies_not_atomic[OF add_OpenMPI missing, of "[]"]
  show ?thesis by simp
qed

subsection \<open>Search paths of the dependencies\<close>

lemma in_append_new: "x \<in> set paths \<Longrightarrow> x \<in> set (append_new paths ps)"
  by (induction ps arbitrary: paths) auto

text \<open>
  C6. Without subdirectories given by the caller, the include subdirectories are
  \<open>include\<close>, and the library subdirectories are \<open>lib64\<close>, \<open>lib\<close> when the option
  \<open>32bit\<close> is not set and \<open>lib\<close> alone when it is set. \<open>lib\<close> is in the list for every
  option value and every list given by the caller. These are the lists that
  \<open>_add_dependency_variables\<close> hands to \<open>append_subdirs\<close> for every root.
\<close>

theorem add_dependency_variables_subdirs:
  "cpp_paths_of None = [''include'']
   \<and> (\<not> truthy (option_of t ''32bit'') \<longrightarrow> ld_paths_of t None = [''lib64'', ''lib''])
   \<and> (truthy (option_of t ''32bit'') \<longrightarrow> ld_paths_of t None = [''lib''])
   \<and> ''lib'' \<in> set (ld_paths_of t ld)
   \<and> (add_dependency_variables b None None None t = Inr t' \<longrightarrow>
        (\<exists>names roots. dep_names (dependencies t) = Inr names
           \<and> get_software_root b names = Inr roots
           \<and> variables t' = variables t @ concat (map (append_root [''include'']
               (if truthy (option_of t ''32bit'') then [''lib''] else [''lib64'', ''lib''])) roots)))"
proof -
  have a: "cpp_paths_of None = [''include'']" by (simp add: cpp_paths_of_def)
  have b: "\<not> truthy (option_of t ''32bit'') \<longrightarrow> ld_paths_of t None = [''lib64'', ''lib'']"
    by (simp add: ld_paths_of_def)
  have c: "truthy (option_of t ''32bit'') \<longrightarrow> ld_paths_of t None = [''lib'']"
    by (simp add: ld_paths_of_def)
  have d: "''lib'' \<in> set (ld_paths_of t ld)"
    by (cases ld) (simp_all add: ld_paths_of_def in_append_new)
  have e: "add_dependency_variables b None None None t = Inr t' \<longrightarrow>
        (\<exists>names roots. dep_names (dependencies t) = Inr names
           \<and> get_software_root b names = Inr roots
           \<and> variables t' = variables t @ concat (map (append_root [''include'']
               (if truthy (option_of t ''32bit'') then [''lib''] else [''lib64'', ''lib''])) roots))"
    using a b c
    by (auto simp: add_dependency_variables_def Let_def split: sum.splits)
  from a b c d e show ?thesis by blast
qed

theorem add_dependency_variables_subdirs_witness:
  "ld_paths_of GCC_4_7 None = [''lib64'', ''lib'']
   \<and> ld_paths_of (GCC_4_7\<lparr>options := [''32bit'' \<mapsto> PBool True]\<rparr>) None = [''lib'']
   \<and> ''lib'' \<in> set (ld_paths_of (GCC_4_7\<lparr>options := [''32bit'' \<mapsto> PBool True]\<rparr>) (Some [''lib64'']))"
proof -
  have u: "\<not> truthy (option_of GCC_4_7 ''32bit'')"
    by (simp add: option_of_def GCC_4_7_def)
  have s: "truthy (option_of (GCC_4_7\<lparr>options := [''32bit'' \<mapsto> PBool True]\<rparr>) ''32bit'')"
    by (simp add: option_of_def)
  from u s add_dependency_variables_subdirs[of GCC_4_7] add_dependency_variables_subdirs[of "GCC_4_7\<lparr>options := [''32bit'' \<mapsto> PBool True]\<rparr>" "Some [''lib64'']"]
  show ?thesis by blast
qed

subsection \<open>Setting the environment\<close>

lemma setenv_loop_calls:
  "setenv_loop dns kvs w =
     w\<lparr>setvar_calls := setvar_calls w @
        concat (map (\<lambda>(key, val). if key \<in> set dns then [] else [(key, val), (''EBVAR'' @ key, val)]) kvs)\<rparr>"
  by (induction kvs arbitrary: w) (auto simp: setvar_def)

text \<open>
  C7. When \<open>_setenv_variables\<close> returns, the calls of \<open>setvar\<close> it has made are, for every
  item of \<open>vars\<close> in turn: none when the key is in the list of names not to set, and
  otherwise the key with its value followed by \<open>EBVAR\<close> + key with the same value.
\<close>

theorem setenv_variables_both_or_neither:
  assumes "vars t = Some kvs" and "donotsetlist_of donotset = Inr dns"
  shows "setenv_variables donotset t w =
           (Inr (), w\<lparr>setvar_calls := setvar_calls w @
              concat (map (\<lambda>(key, val). if key \<in> set dns then []
                                          else [(key, val), (''EBVAR'' @ key, val)]) kvs)\<rparr>)"
  using assms by (simp add: setenv_variables_def setenv_loop_calls)

theorem setenv_variables_both_or_neither_witness:
  "setenv_variables (OnlyList [''CFLAGS''])
     (GCC_4_7\<lparr>vars := Some [(''CC'', ''gcc''), (''CFLAGS'', ''-O2'')]\<rparr>) world0 =
     (Inr (), world0\<lparr>setvar_calls := [(''CC'', ''gcc''), (''EBVARCC'', ''gcc'')]\<rparr>)"
proof -
  have v: "vars (GCC_4_7\<lparr>vars := Some [(''CC'', ''gcc''), (''CFLAGS'', ''-O2'')]\<rparr>)
             = Some [(''CC'', ''gcc''), (''CFLAGS'', ''-O2'')]" by simp
  have d: "donotsetlist_of (OnlyList [''CFLAGS'']) = Inr [''CFLAGS'']"
    by (simp add: donotsetlist_of_def)
  from setenv_variables_both_or_neither[OF v d, of world0] show ?thesis by (simp add: world0_def)
qed

subsection \<open>prepare\<close>

lemma toolchain_elements_mod_names_deps [simp]:
  "toolchain_elements_mod_names cls (t\<lparr>toolchain_dependencies := ds\<rparr>) s
     = toolchain_elements_mod_names cls t s"
  by (simp add: toolchain_elements_mod_names_def)

lemma set_variables_fields [simp]:
  "dependencies (set_variables t) = dependencies t"
  "options (set_variables t) = options t"
  "name (set_variables t) = name t"
  by (simp_all add: set_variables_def)

lemma dep_names_error: "dep_names ds = Inl e \<Longrightarrow> e = KeyError ''name''"
  by (induction ds arbitrary: e) (auto simp: getitem_def split: option.splits sum.splits)

lemma get_software_multiple_error:
  "get_software_multiple ns (get_software_root_one b) = Inl e \<Longrightarrow> \<exists>n. e = MissingRootError n"
  by (induction ns arbitrary: e)
     (auto simp: get_software_root_one_def split: option.splits sum.splits)

lemma add_dependency_variables_error:
  "add_dependency_variables b None None None t = Inl e \<Longrightarrow>
     e = KeyError ''name'' \<or> (\<exists>n. e = MissingRootError n)"
  by (auto simp: add_dependency_variables_def get_software_root_def Let_def
           split: sum.splits dest: dep_names_error get_software_multiple_error)

lemma add_dependency_variables_ok:
  "dep_names (dependencies t) = Inr names \<Longrightarrow> get_software_root b names = Inr roots \<Longrightarrow>
   add_dependency_variables b None None None t =
     Inr (t\<lparr>variables := variables t @
            concat (map (append_root (cpp_paths_of None) (ld_paths_of t None)) roots)\<rparr>)"
  by (simp add: add_dependency_variables_def)

lemma setenv_variables_world:
  "setenv_variables donotset t w = (r, w') \<Longrightarrow>
     log_records w' = log_records w \<and> backend_calls w' = backend_calls w"
  by (auto simp: setenv_variables_def setenv_loop_calls split: sum.splits option.splits)

lemma setenv_variables_error:
  "setenv_variables donotset (generate_vars b t) w = (Inl e, w') \<Longrightarrow> \<exists>s. e = LegacyUsageError s"
  by (auto simp: setenv_variables_def generate_vars_def donotsetlist_of_def
           split: sum.splits onlymod_arg.splits)

lemma prepare_variables_world:
  "prepare_variables b onlymod t w = (r, t', w') \<Longrightarrow>
     log_records w' = log_records w \<and> backend_calls w' = backend_calls w"
  by (auto simp: prepare_variables_def Let_def split: if_splits sum.splits prod.splits
           dest: setenv_variables_world)

lemma prepare_variables_onlymod:
  "prepare_variables b (OnlyBool True) t w = (Inr (), generate_vars b (set_variables t), w)"
  by (simp add: prepare_variables_def)

lemma prepare_variables_error:
  "prepare_variables b onlymod t w = (Inl e, t', w') \<Longrightarrow>
     e = KeyError ''name'' \<or> (\<exists>n. e = MissingRootError n) \<or> (\<exists>s. e = LegacyUsageError s)"
  by (auto simp: prepare_variables_def Let_def split: if_splits sum.splits prod.splits
           dest: add_dependency_variables_error setenv_variables_error)

lemma prepare_variables_setenv:
  assumes "onlymod \<noteq> OnlyBool True" and "donotsetlist_of onlymod = Inr dns"
      and "dep_names (dependencies t) = Inr names" and "get_software_root b names = Inr roots"
      and "prepare_variables b onlymod t w = (r, t', w')"
  shows "r = Inr () \<and> vars t' = Some (variables_items b (variables t'))
       \<and> setvar_calls w' = setvar_calls w @
           concat (map (\<lambda>(key, val). if key \<in> set dns then []
                                       else [(key, val), (''EBVAR'' @ key, val)])
                       (variables_items b (variables t')))"
proof -
  have "dep_names (dependencies (set_variables t)) = Inr names" using assms(3) by simp
  from add_dependency_variables_ok[OF this assms(4)] assms(1,2,5)
  show ?thesis
    by (auto simp: prepare_variables_def Let_def setenv_variables_def generate_vars_def
          setenv_loop_calls)
qed


lemma endswith_MODULE_NAME:
  "endswith ''COMPILER_MODULE_NAME'' ''_MODULE_NAME''"
  "endswith ''MPI_MODULE_NAME'' ''_MODULE_NAME''"
  by (simp_all add: endswith_def)

lemma GCC_elements:
  "toolchain_elements_mod_names GCC_class
     (GCC_4_7\<lparr>dependencies := [OpenMPI_1_6(''tc'' \<mapsto> PStr ''1.6-GCC-4.7'')]\<rparr>) s = [''OpenMPI'']"
  by (simp add: toolchain_elements_mod_names_def GCC_class_def GCC_4_7_def endswith_MODULE_NAME)

lemma render_OpenMPI:
  "render_items [AppendSubdirs ''CPPFLAGS'' ''/opt/OpenMPI'' [''include''],
                 AppendSubdirs ''LDFLAGS'' ''/opt/OpenMPI'' [''lib64'', ''lib'']] =
     [(''CPPFLAGS'', ''/opt/OpenMPI/include''),
      (''LDFLAGS'', ''/opt/OpenMPI/lib64 /opt/OpenMPI/lib'')]"
  by (simp add: render_items_def)

text \<open>
  C2. For a toolchain whose name and version are both the dummy sentinel, \<open>prepare\<close>
  returns normally and leaves the instance as it is; it writes one info record, makes no
  call on the module backend and no call of \<open>setvar\<close>. For an instance as \<open>__init__\<close>
  builds it, the variable container is empty and \<open>vars\<close> is \<open>None\<close>: no variable is
  defined.
\<close>

theorem prepare_dummy_dummy:
  assumes "name t = DUMMY_NAME" and "version t = DUMMY_VERSION"
  shows "prepare cls b onlymod t w = (Inr (), t, write_log InfoDummyNotLoading w)
       \<and> backend_calls (write_log InfoDummyNotLoading w) = backend_calls w
       \<and> setvar_calls (write_log InfoDummyNotLoading w) = setvar_calls w
       \<and> (Toolchain_init cls nm ver = Inr t \<longrightarrow> variables t = [] \<and> vars t = None)"
proof -
  have p: "prepare cls b onlymod t w = (Inr (), t, write_log InfoDummyNotLoading w)"
    using assms by (simp add: prepare_def toolchain_exists_def)
  have i: "Toolchain_init cls nm ver = Inr t \<longrightarrow> variables t = [] \<and> vars t = None"
    by (auto simp: Toolchain_init_def split: option.splits)
  from p i show ?thesis by (simp add: write_log_def)
qed

theorem prepare_dummy_dummy_witness:
  "Toolchain_init Toolchain_class (Some ''dummy'') (Some ''dummy'') =
     Inr \<lparr>name = ''dummy'', version = ''dummy'', options = Map.empty, variables = [],
          dependencies = [], toolchain_dependencies = [], vars = None\<rparr>
   \<and> prepare Toolchain_class installation OnlyNone
        \<lparr>name = ''dummy'', version = ''dummy'', options = Map.empty, variables = [],
          dependencies = [], toolchain_dependencies = [], vars = None\<rparr> world0
      = (Inr (), \<lparr>name = ''dummy'', version = ''dummy'', options = Map.empty, variables = [],
          dependencies = [], toolchain_dependencies = [], vars = None\<rparr>,
         world0\<lparr>log_records := [InfoDummyNotLoading]\<rparr>)"
proof -
  let ?t = "\<lparr>name = ''dummy'', version = ''dummy'', options = Map.empty, variables = [],
          dependencies = [], toolchain_dependencies = [], vars = None\<rparr>"
  have i: "Toolchain_init Toolchain_class (Some ''dummy'') (Some ''dummy'') = Inr ?t"
    by (simp add: Toolchain_init_def Toolchain_class_def)
  have n: "name ?t = DUMMY_NAME" by (simp add: DUMMY_NAME_def)
  have v: "version ?t = DUMMY_VERSION" by (simp add: DUMMY_VERSION_def)
  from prepare_dummy_dummy[OF n v, of Toolchain_class installation OnlyNone world0] i
  show ?thesis by (simp add: write_log_def world0_def)
qed

text \<open>
  C10. For a toolchain with the dummy name and another version, \<open>prepare\<close> hands the
  registered dependencies to the backend, loads them and returns. The instance is left as
  it is (\<open>vars\<close> stays what it was, \<open>None\<close> after \<open>__init__\<close>); the calls on the backend
  are \<open>add_module\<close> of the dependencies and \<open>load\<close> and nothing else, so no toolchain
  module is loaded and \<open>dependencies_for\<close> is not asked; the only log record is the info
  record of this branch; \<open>setvar\<close> is not called.
\<close>

theorem prepare_dummy_name_loads_only:
  assumes "name t = DUMMY_NAME" and "version t \<noteq> DUMMY_VERSION"
  shows "\<exists>w'. prepare cls b onlymod t w = (Inr (), t, w')
       \<and> backend_calls w' = backend_calls w @ [AddModule (map ModDep (dependencies t)), Load]
       \<and> log_records w' = log_records w @ [InfoDummyLoading]
       \<and> setvar_calls w' = setvar_calls w"
  using assms by (simp add: prepare_def toolchain_exists_def call_backend_def write_log_def)

theorem prepare_dummy_name_loads_only_witness:
  "name (GCC_4_7\<lparr>name := ''dummy'', dependencies := [OpenMPI_1_6(''tc'' \<mapsto> PStr ''1.64.7'')]\<rparr>)
     = DUMMY_NAME
   \<and> version (GCC_4_7\<lparr>name := ''dummy'', dependencies := [OpenMPI_1_6(''tc'' \<mapsto> PStr ''1.64.7'')]\<rparr>)
     \<noteq> DUMMY_VERSION
   \<and> vars (GCC_4_7\<lparr>name := ''dummy'', dependencies := [OpenMPI_1_6(''tc'' \<mapsto> PStr ''1.64.7'')]\<rparr>)
     = None
   \<and> (\<exists>w'. prepare Toolchain_class installation OnlyNone
              (GCC_4_7\<lparr>name := ''dummy'',
                        dependencies := [OpenMPI_1_6(''tc'' \<mapsto> PStr ''1.64.7'')]\<rparr>) world0
            = (Inr (), GCC_4_7\<lparr>name := ''dummy'',
                        dependencies := [OpenMPI_1_6(''tc'' \<mapsto> PStr ''1.64.7'')]\<rparr>, w')
          \<and> backend_calls w' = [AddModule [ModDep (OpenMPI_1_6(''tc'' \<mapsto> PStr ''1.64.7''))], Load]
          \<and> log_records w' = [InfoDummyLoading]
          \<and> setvar_calls w' = [])"
proof -
  let ?t = "GCC_4_7\<lparr>name := ''dummy'', dependencies := [OpenMPI_1_6(''tc'' \<mapsto> PStr ''1.64.7'')]\<rparr>"
  have n: "name ?t = DUMMY_NAME" by (simp add: DUMMY_NAME_def)
  have v: "version ?t \<noteq> DUMMY_VERSION" by (simp add: DUMMY_VERSION_def GCC_4_7_def)
  have s: "vars ?t = None" by (simp add: GCC_4_7_def)
  from prepare_dummy_name_loads_only[OF n v, of Toolchain_class installation OnlyNone world0] n v s
  show ?thesis by (simp add: world0_def)
qed

text \<open>
  C5. For a toolchain that is not the dummy one and exists, when the names reported by
  the backend for the loaded toolchain module differ from the declared element names
  after filtering, \<open>prepare\<close> writes the mismatch as an error record and goes on with the
  steps that follow the check (\<open>prepare_variables\<close>): with \<open>onlymod == True\<close> the
  variables are generated; otherwise, when the roots of the dependencies are found and
  \<open>onlymod\<close> is not a string, the variables are generated and set in the environment. An
  exception can come from those later steps only.
\<close>

theorem prepare_mismatch_continues:
  assumes "name t \<noteq> DUMMY_NAME"
      and "mod_exists b (PStr (name t)) (PStr (version t))"
      and "dep_names (mod_dependencies_for b (name t) (version t) 0) = Inr ns"
      and "set ns \<noteq> PStr ` set (toolchain_elements_mod_names cls t (set ns))"
      and "prepare cls b onlymod t w = (r, t', w')"
  shows "log_records w' = log_records w @
            [ErrorMismatch (set ns) (PStr ` set (toolchain_elements_mod_names cls t (set ns)))]
       \<and> (r, t', w') =
           prepare_variables b onlymod
             (t\<lparr>toolchain_dependencies := mod_dependencies_for b (name t) (version t) 0\<rparr>)
             (write_log (ErrorMismatch (set ns)
                           (PStr ` set (toolchain_elements_mod_names cls t (set ns))))
                (call_backend (DependenciesFor (name t) (version t) 0)
                  (call_backend Load
                    (call_backend (AddModule (map ModDep (dependencies t)))
                      (call_backend (AddModule [ModTuple (name t) (version t)])
                        (call_backend (Exists (PStr (name t)) (PStr (version t))) w))))))
       \<and> (onlymod = OnlyBool True \<longrightarrow>
            r = Inr () \<and> vars t' = Some (variables_items b (variables t'))
            \<and> setvar_calls w' = setvar_calls w)
       \<and> (\<forall>dns names roots.
            onlymod \<noteq> OnlyBool True \<and> donotsetlist_of onlymod = Inr dns
            \<and> dep_names (dependencies t) = Inr names \<and> get_software_root b names = Inr roots \<longrightarrow>
            r = Inr () \<and> vars t' = Some (variables_items b (variables t'))
            \<and> setvar_calls w' = setvar_calls w @
                 concat (map (\<lambda>(key, val). if key \<in> set dns then []
                                             else [(key, val), (''EBVAR'' @ key, val)])
                             (variables_items b (variables t'))))
       \<and> (\<forall>e. r = Inl e \<longrightarrow>
            e = KeyError ''name'' \<or> (\<exists>n. e = MissingRootError n) \<or> (\<exists>s. e = LegacyUsageError s))"
proof -
  let ?t1 = "t\<lparr>toolchain_dependencies := mod_dependencies_for b (name t) (version t) 0\<rparr>"
  let ?rec = "ErrorMismatch (set ns) (PStr ` set (toolchain_elements_mod_names cls t (set ns)))"
  let ?w3 = "call_backend (DependenciesFor (name t) (version t) 0)
                  (call_backend Load
                    (call_backend (AddModule (map ModDep (dependencies t)))
                      (call_backend (AddModule [ModTuple (name t) (version t)])
                        (call_backend (Exists (PStr (name t)) (PStr (version t))) w))))"
  have unfold: "prepare cls b onlymod t w = prepare_variables b onlymod ?t1 (write_log ?rec ?w3)"
    using assms(1-4) by (simp add: prepare_def toolchain_exists_def Let_def)
  with assms(5) have pv: "prepare_variables b onlymod ?t1 (write_log ?rec ?w3) = (r, t', w')"
    by simp
  have w3: "log_records (write_log ?rec ?w3) = log_records w @ [?rec]"
           "setvar_calls (write_log ?rec ?w3) = setvar_calls w"
    by (simp_all add: write_log_def call_backend_def)
  have a: "log_records w' = log_records w @ [?rec]"
    using prepare_variables_world[OF pv] w3 by simp
  have b: "(r, t', w') = prepare_variables b onlymod ?t1 (write_log ?rec ?w3)"
    using pv by simp
  have c: "onlymod = OnlyBool True \<longrightarrow>
            r = Inr () \<and> vars t' = Some (variables_items b (variables t'))
            \<and> setvar_calls w' = setvar_calls w"
    using pv w3 by (auto simp: prepare_variables_onlymod generate_vars_def)
  have d: "\<forall>dns names roots.
            onlymod \<noteq> OnlyBool True \<and> donotsetlist_of onlymod = Inr dns
            \<and> dep_names (dependencies t) = Inr names \<and> get_software_root b names = Inr roots \<longrightarrow>
            r = Inr () \<and> vars t' = Some (variables_items b (variables t'))
            \<and> setvar_calls w' = setvar_calls w @
                 concat (map (\<lambda>(key, val). if key \<in> set dns then []
                                             else [(key, val), (''EBVAR'' @ key, val)])
                             (variables_items b (variables t')))"
  proof (intro allI impI, elim conjE)
    fix dns names roots
    assume h: "onlymod \<noteq> OnlyBool True" "donotsetlist_of onlymod = Inr dns"
      "dep_names (dependencies t) = Inr names" "get_software_root b names = Inr roots"
    from h(3) have "dep_names (dependencies ?t1) = Inr names" by simp
    from prepare_variables_setenv[OF h(1) h(2) this h(4) pv] w3(2)
    show "r = Inr () \<and> vars t' = Some (variables_items b (variables t'))
            \<and> setvar_calls w' = setvar_calls w @
                 concat (map (\<lambda>(key, val). if key \<in> set dns then []
                                             else [(key, val), (''EBVAR'' @ key, val)])
                             (variables_items b (variables t')))"
      by simp
  qed
  have e: "\<forall>e. r = Inl e \<longrightarrow>
            e = KeyError ''name'' \<or> (\<exists>n. e = MissingRootError n) \<or> (\<exists>s. e = LegacyUsageError s)"
    using pv by (auto dest: prepare_variables_error)
  from a b c d e show ?thesis by blast
qed


theorem prepare_mismatch_continues_witness:
  "name (GCC_4_7\<lparr>dependencies := [OpenMPI_1_6(''tc'' \<mapsto> PStr ''1.6-GCC-4.7'')]\<rparr>) \<noteq> DUMMY_NAME
   \<and> set [] \<noteq> PStr ` set [''OpenMPI'']
   \<and> prepare GCC_class installation OnlyNone
        (GCC_4_7\<lparr>dependencies := [OpenMPI_1_6(''tc'' \<mapsto> PStr ''1.6-GCC-4.7'')]\<rparr>) world0 =
      (Inr (),
       GCC_4_7\<lparr>dependencies := [OpenMPI_1_6(''tc'' \<mapsto> PStr ''1.6-GCC-4.7'')],
                variables := [AppendSubdirs ''CPPFLAGS'' ''/opt/OpenMPI'' [''include''],
                              AppendSubdirs ''LDFLAGS'' ''/opt/OpenMPI'' [''lib64'', ''lib'']],
                vars := Some [(''CPPFLAGS'', ''/opt/OpenMPI/include''),
                              (''LDFLAGS'', ''/opt/OpenMPI/lib64 /opt/OpenMPI/lib'')]\<rparr>,
       \<lparr>backend_calls = [Exists (PStr ''GCC'') (PStr ''4.7''),
                         AddModule [ModTuple ''GCC'' ''4.7''],
                         AddModule [ModDep (OpenMPI_1_6(''tc'' \<mapsto> PStr ''1.6-GCC-4.7''))],
                         Load, DependenciesFor ''GCC'' ''4.7'' 0],
        log_records = [ErrorMismatch {} {PStr ''OpenMPI''}],
        setvar_calls = [(''CPPFLAGS'', ''/opt/OpenMPI/include''),
                        (''EBVARCPPFLAGS'', ''/opt/OpenMPI/include''),
                        (''LDFLAGS'', ''/opt/OpenMPI/lib64 /opt/OpenMPI/lib''),
                        (''EBVARLDFLAGS'', ''/opt/OpenMPI/lib64 /opt/OpenMPI/lib'')]\<rparr>)"
proof -
  let ?t = "GCC_4_7\<lparr>dependencies := [OpenMPI_1_6(''tc'' \<mapsto> PStr ''1.6-GCC-4.7'')]\<rparr>"
  obtain r t' w' where p: "prepare GCC_class installation OnlyNone ?t world0 = (r, t', w')"
    by (cases "prepare GCC_class installation OnlyNone ?t world0") blast
  have nv: "name ?t = ''GCC''" "version ?t = ''4.7''" by (simp_all add: GCC_4_7_def)
  have h1: "name ?t \<noteq> DUMMY_NAME" by (simp add: nv DUMMY_NAME_def)
  have h2: "mod_exists installation (PStr (name ?t)) (PStr (version ?t))"
    by (simp add: nv installation_def)
  have h3: "dep_names (mod_dependencies_for installation (name ?t) (version ?t) 0) = Inr []"
    by (simp add: installation_def)
  have h4: "set [] \<noteq> PStr ` set (toolchain_elements_mod_names GCC_class ?t (set []))"
    by (simp add: GCC_elements)
  note c = prepare_mismatch_continues[OF h1 h2 h3 h4 p]
  have md: "mod_dependencies_for installation ''GCC'' ''4.7'' 0 = []"
    by (simp add: installation_def)
  have dn: "donotsetlist_of OnlyNone = Inr []" by (simp add: donotsetlist_of_def)
  have ds: "dep_names (dependencies ?t) = Inr [PStr ''OpenMPI'']"
    by (simp add: getitem_def OpenMPI_1_6_def)
  have rs: "get_software_root installation [PStr ''OpenMPI''] = Inr [''/opt/OpenMPI'']"
    by (simp add: get_software_root_def get_software_root_one_def installation_def)
  have pv: "prepare_variables installation OnlyNone
              (?t\<lparr>toolchain_dependencies := []\<rparr>) w0 =
            (Inr (),
             GCC_4_7\<lparr>dependencies := [OpenMPI_1_6(''tc'' \<mapsto> PStr ''1.6-GCC-4.7'')],
                variables := [AppendSubdirs ''CPPFLAGS'' ''/opt/OpenMPI'' [''include''],
                              AppendSubdirs ''LDFLAGS'' ''/opt/OpenMPI'' [''lib64'', ''lib'']],
                vars := Some [(''CPPFLAGS'', ''/opt/OpenMPI/include''),
                              (''LDFLAGS'', ''/opt/OpenMPI/lib64 /opt/OpenMPI/lib'')]\<rparr>,
             w0\<lparr>setvar_calls := setvar_calls w0 @
                       [(''CPPFLAGS'', ''/opt/OpenMPI/include''),
                        (''EBVARCPPFLAGS'', ''/opt/OpenMPI/include''),
                        (''LDFLAGS'', ''/opt/OpenMPI/lib64 /opt/OpenMPI/lib''),
                        (''EBVARLDFLAGS'', ''/opt/OpenMPI/lib64 /opt/OpenMPI/lib'')]\<rparr>)" for w0
    using ds rs
    by (simp add: prepare_variables_def set_variables_def option_of_def
          add_dependency_variables_def cpp_paths_of_def ld_paths_of_def append_root_def
          generate_vars_def setenv_variables_def dn setvar_def render_OpenMPI
          GCC_4_7_def installation_def)
  from c have "(r, t', w') = prepare_variables installation OnlyNone
             (?t\<lparr>toolchain_dependencies := mod_dependencies_for installation (name ?t) (version ?t) 0\<rparr>)
             (write_log (ErrorMismatch (set [])
                           (PStr ` set (toolchain_elements_mod_names GCC_class ?t (set []))))
                (call_backend (DependenciesFor (name ?t) (version ?t) 0)
                  (call_backend Load
                    (call_backend (AddModule (map ModDep (dependencies ?t)))
                      (call_backend (AddModule [ModTuple (name ?t) (version ?t)])
                        (call_backend (Exists (PStr (name ?t)) (PStr (version ?t))) world0))))))"
    by blast
  then have "(r, t', w') = (Inr (),
       GCC_4_7\<lparr>dependencies := [OpenMPI_1_6(''tc'' \<mapsto> PStr ''1.6-GCC-4.7'')],
                variables := [AppendSubdirs ''CPPFLAGS'' ''/opt/OpenMPI'' [''include''],
                              AppendSubdirs ''LDFLAGS'' ''/opt/OpenMPI'' [''lib64'', ''lib'']],
                vars := Some [(''CPPFLAGS'', ''/opt/OpenMPI/include''),
                              (''LDFLAGS'', ''/opt/OpenMPI/lib64 /opt/OpenMPI/lib'')]\<rparr>,
       \<lparr>backend_calls = [Exists (PStr ''GCC'') (PStr ''4.7''),
                         AddModule [ModTuple ''GCC'' ''4.7''],
                         AddModule [ModDep (OpenMPI_1_6(''tc'' \<mapsto> PStr ''1.6-GCC-4.7''))],
                         Load, DependenciesFor ''GCC'' ''4.7'' 0],
        log_records = [ErrorMismatch {} {PStr ''OpenMPI''}],
        setvar_calls = [(''CPPFLAGS'', ''/opt/OpenMPI/include''),
                        (''EBVARCPPFLAGS'', ''/opt/OpenMPI/include''),
                        (''LDFLAGS'', ''/opt/OpenMPI/lib64 /opt/OpenMPI/lib''),
                        (''EBVARLDFLAGS'', ''/opt/OpenMPI/lib64 /opt/OpenMPI/lib'')]\<rparr>)"
    unfolding nv GCC_elements md
    by (simp add: pv write_log_def call_backend_def world0_def)
  with p h1 show ?thesis by simp
qed

end
